theory Spec2Isabelle
  imports Main "HOL-Library.AList"
begin

section \<open>Data model\<close>

text \<open>
  The status report types of \<^verbatim>\<open>analyze-action.ts\<close>. Every field of
  \<^verbatim>\<open>QueriesStatusReport\<close> and \<^verbatim>\<open>UploadStatusReport\<close> is optional in the
  source; an absent field (or one holding \<^verbatim>\<open>undefined\<close>) is \<open>None\<close>. The per-language
  duration fields of \<^verbatim>\<open>QueriesStatusReport\<close> are kept as one association list from
  field name to milliseconds.
\<close>

record QueriesStatusReport =
  analyze_failure_language :: "string option"
  duration_fields_ms :: "(string \<times> nat) list"

record UploadStatusReport =
  raw_upload_size_bytes :: "nat option"
  zipped_upload_size_bytes :: "nat option"
  num_results_in_sarif :: "nat option"

text \<open>
  \<^verbatim>\<open>interface AnalysisStatusReport extends UploadStatusReport, QueriesStatusReport\<close>:
  the two interfaces have disjoint field names, so the object is the pair of its two parts.
\<close>

record AnalysisStatusReport =
  queries :: QueriesStatusReport
  upload :: UploadStatusReport

definition no_queries_fields :: QueriesStatusReport where
  "no_queries_fields = \<lparr>analyze_failure_language = None, duration_fields_ms = []\<rparr>"

definition no_upload_fields :: UploadStatusReport where
  "no_upload_fields =
     \<lparr>raw_upload_size_bytes = None, zipped_upload_size_bytes = None, num_results_in_sarif = None\<rparr>"

text \<open>The empty object \<^verbatim>\<open>{}\<close> read as an \<^verbatim>\<open>AnalysisStatusReport\<close>.\<close>

definition empty_object :: AnalysisStatusReport where
  "empty_object = \<lparr>queries = no_queries_fields, upload = no_upload_fields\<rparr>"

text \<open>\<^verbatim>\<open>{ ...queriesStats }\<close> and \<^verbatim>\<open>{ ...queriesStats, ...uploadStats }\<close>.\<close>

definition spread_queries :: "QueriesStatusReport \<Rightarrow> AnalysisStatusReport" where
  "spread_queries q = \<lparr>queries = q, upload = no_upload_fields\<rparr>"

definition spread_queries_upload ::
  "QueriesStatusReport \<Rightarrow> UploadStatusReport \<Rightarrow> AnalysisStatusReport" where
  "spread_queries_upload q u = \<lparr>queries = q, upload = u\<rparr>"

text \<open>
  Thrown values. \<^verbatim>\<open>CodeQLAnalysisError\<close> carries its \<^verbatim>\<open>queriesStatusReport\<close>;
  an HTTP error carries its \<^verbatim>\<open>status\<close>.
\<close>

datatype error_kind =
  PlainError
  | HTTPError nat
  | CodeQLAnalysisError QueriesStatusReport

datatype error = Err (kind: error_kind) (message: string) (stack: "string option")

fun isHTTPError :: "error \<Rightarrow> bool" where
  "isHTTPError (Err (HTTPError n) m s) = True"
| "isHTTPError (Err k m s) = False"

fun http_status :: "error \<Rightarrow> nat option" where
  "http_status (Err (HTTPError n) m s) = Some n"
| "http_status (Err k m s) = None"

text \<open>
  Modelled from the spec: \<^verbatim>\<open>actionsUtil.StatusReportBase\<close> and
  \<^verbatim>\<open>actionsUtil.createStatusReportBase\<close> live in \<^verbatim>\<open>actions-util.ts\<close>, which is not
  among the source files. The spec describes the base as "stage name, status enum,
  timestamps, optional error message/stack"; the record keeps exactly the five arguments
  the call sites of \<^verbatim>\<open>analyze-action.ts\<close> pass, in their order.
\<close>

record StatusReportBase =
  action_name :: string
  status :: string
  started_at :: nat
  cause :: "string option"
  exception :: "string option"

definition createStatusReportBase ::
  "string \<Rightarrow> string \<Rightarrow> nat \<Rightarrow> string option \<Rightarrow> string option \<Rightarrow> StatusReportBase" where
  "createStatusReportBase actionName st startedAt c ex =
     \<lparr>action_name = actionName, status = st, started_at = startedAt, cause = c, exception = ex\<rparr>"

text \<open>
  \<^verbatim>\<open>interface FinishStatusReport extends StatusReportBase, AnalysisStatusReport\<close>.
  A bare \<^verbatim>\<open>StatusReportBase\<close> is the object whose analysis fields are all absent.
\<close>

record FinishStatusReport =
  base :: StatusReportBase
  analysis :: AnalysisStatusReport

definition base_only :: "StatusReportBase \<Rightarrow> FinishStatusReport" where
  "base_only b = \<lparr>base = b, analysis = empty_object\<rparr>"

datatype GitHubVariant = DOTCOM | GHES | GHAE

record Config =
  languages :: "string list"
  gitHubVersion :: GitHubVariant
  codeQLCmd :: string
  tempDir :: string

record RepositoryNwo =
  owner :: string
  repo :: string

text \<open>
  What \<^verbatim>\<open>fs.readdirSync(dir, { withFileTypes: true })\<close> and \<^verbatim>\<open>fs.readFileSync\<close> find
  below a log directory: a file with its contents or the error reading it raises, a
  directory with its entries, a directory whose listing raises, or an entry that is
  neither a file nor a directory.
\<close>

datatype dirent =
  FileEnt string "error + string"
  | DirEnt string "dirent list"
  | UnreadableDirEnt string error
  | OtherEnt string

section \<open>Observable actions\<close>

datatype event =
  InitializeEnvironment
  | SendStatusReport FinishStatusReport
  | GetConfig
  | RunAnalyze string string string string "string option"
  | RunCleanup string
  | SetOutput string "(string \<times> string) list"
  | UploadFromActions string
  | ClientRequest string
  | DatabaseBundle string string
  | ReadFileSync string
  | LoggerDebug string
  | LoggerInfo string
  | LoggerWarning string
  | SetFailed string
  | ConsoleLog error
  | CoreInfo string
  | StartGroup string
  | StdoutWrite string
  | EndGroup

text \<open>
  The collaborators of the action, which are not part of \<^verbatim>\<open>analyze-action.ts\<close>: each
  field is what the named call answers (\<open>Inl\<close> or \<open>Some\<close> error: it throws).
  The last two are the runtime's: \<^verbatim>\<open>path.join\<close>, and the string the template literal
  \<^verbatim>\<open>${e}\<close> makes of a thrown value.
\<close>

record world =
  new_Date :: nat
  new_Error_stack :: "string \<Rightarrow> string option"
  actionsUtil_sendStatusReport_result :: "FinishStatusReport \<Rightarrow> bool"
  getConfig_result :: "error + Config option"
  getRequiredInput_result :: "string \<Rightarrow> error + string"
  getOptionalInput_result :: "string \<Rightarrow> string option"
  getRequiredEnvParam_result :: "string \<Rightarrow> error + string"
  getMemoryFlag_result :: "string option \<Rightarrow> error + string"
  getAddSnippetsFlag_result :: "string \<Rightarrow> error + string"
  getThreadsFlag_result :: "string option \<Rightarrow> error + string"
  runAnalyze_result :: "error + QueriesStatusReport"
  runCleanup_result :: "string \<Rightarrow> error option"
  uploadFromActions_result :: "error + UploadStatusReport"
  parseRepositoryNwo_result :: "string \<Rightarrow> error + RepositoryNwo"
  isAnalyzingDefaultBranch_result :: "error + bool"
  client_request_result :: "string \<Rightarrow> error option"
  databaseBundle_result :: "string \<Rightarrow> error option"
  readFileSync_result :: "string \<Rightarrow> error + string"
  readdirSync_result :: "string \<Rightarrow> error + dirent list"
  getCodeQLDatabasePath :: "Config \<Rightarrow> string \<Rightarrow> string"
  isDebug :: bool
  path_join :: "string \<Rightarrow> string \<Rightarrow> string"
  error_to_string :: "error \<Rightarrow> string"

section \<open>Control flow: variables of \<^verbatim>\<open>run\<close>, exceptions, the trace\<close>

text \<open>
  The two mutable variables of \<^verbatim>\<open>run\<close> (\<^verbatim>\<open>stats\<close> and \<^verbatim>\<open>config\<close>, both
  initially \<^verbatim>\<open>undefined\<close>) and the actions performed so far. A statement takes the state
  and returns the new one, with \<open>Inl e\<close> when it throws \<open>e\<close>.
\<close>

record run_state =
  stats :: "AnalysisStatusReport option"
  config :: "Config option"
  trace :: "event list"

type_synonym 'a action = "run_state \<Rightarrow> (error + 'a) \<times> run_state"

definition ret :: "'a \<Rightarrow> 'a action" where
  "ret x s = (Inr x, s)"

definition throw :: "error \<Rightarrow> 'a action" where
  "throw e s = (Inl e, s)"

definition lift :: "error + 'a \<Rightarrow> 'a action" where
  "lift r s = (r, s)"

definition emit :: "event \<Rightarrow> unit action" where
  "emit ev s = (Inr (), s\<lparr>trace := trace s @ [ev]\<rparr>)"

definition emit_all :: "event list \<Rightarrow> unit action" where
  "emit_all evs s = (Inr (), s\<lparr>trace := trace s @ evs\<rparr>)"

definition bnd :: "'a action \<Rightarrow> ('a \<Rightarrow> 'b action) \<Rightarrow> 'b action" where
  "bnd m f s = (case m s of (Inl e, s') \<Rightarrow> (Inl e, s') | (Inr x, s') \<Rightarrow> f x s')"

definition seq :: "unit action \<Rightarrow> 'b action \<Rightarrow> 'b action" where
  "seq m k = bnd m (\<lambda>_. k)"

text \<open>A call that may throw and returns nothing.\<close>

definition lift_unit :: "error option \<Rightarrow> unit action" where
  "lift_unit r s = (case r of None \<Rightarrow> (Inr (), s) | Some e \<Rightarrow> (Inl e, s))"

section \<open>\<^verbatim>\<open>sendStatusReport\<close>\<close>

text \<open>
  Lines 37--51: the status and the record built from it.
  \<^verbatim>\<open>stats?.analyze_failure_language !== undefined || error !== undefined\<close>.
\<close>

definition finish_status :: "AnalysisStatusReport option \<Rightarrow> error option \<Rightarrow> string" where
  "finish_status st err =
     (if (case st of None \<Rightarrow> False
          | Some a \<Rightarrow> analyze_failure_language (queries a) \<noteq> None) \<or> err \<noteq> None
      then ''failure'' else ''success'')"

definition finishStatusReport ::
  "nat \<Rightarrow> AnalysisStatusReport option \<Rightarrow> error option \<Rightarrow> FinishStatusReport" where
  "finishStatusReport startedAt st err =
     \<lparr>base = createStatusReportBase ''finish'' (finish_status st err) startedAt
         (map_option message err) (case err of None \<Rightarrow> None | Some e \<Rightarrow> stack e),
      analysis = (case st of None \<Rightarrow> empty_object | Some a \<Rightarrow> a)\<rparr>"

text \<open>
  Modelled from the spec: \<^verbatim>\<open>actionsUtil.sendStatusReport\<close> is not among the source
  files. The spec says of it that transmission failures are "swallowed, logged, and
  treated as continue", so the call never throws, and its value says whether the caller
  should continue.
\<close>

definition actionsUtil_sendStatusReport :: "world \<Rightarrow> FinishStatusReport \<Rightarrow> bool action" where
  "actionsUtil_sendStatusReport w r =
     seq (emit (SendStatusReport r)) (ret (actionsUtil_sendStatusReport_result w r))"

definition sendStatusReport ::
  "world \<Rightarrow> nat \<Rightarrow> AnalysisStatusReport option \<Rightarrow> error option \<Rightarrow> unit action" where
  "sendStatusReport w startedAt st err =
     bnd (actionsUtil_sendStatusReport w (finishStatusReport startedAt st err)) (\<lambda>_. ret ())"

section \<open>Statements used by \<^verbatim>\<open>uploadDatabases\<close> and \<^verbatim>\<open>run\<close>\<close>

definition assign_stats :: "AnalysisStatusReport option \<Rightarrow> unit action" where
  "assign_stats v s = (Inr (), s\<lparr>stats := v\<rparr>)"

definition assign_config :: "Config option \<Rightarrow> unit action" where
  "assign_config v s = (Inr (), s\<lparr>config := v\<rparr>)"

definition read_stats :: "AnalysisStatusReport option action" where
  "read_stats s = (Inr (stats s), s)"

definition read_config :: "Config option action" where
  "read_config s = (Inr (config s), s)"

text \<open>\<^verbatim>\<open>try { body } catch (e) { handler(e) }\<close>.\<close>

definition try_catch :: "'a action \<Rightarrow> (error \<Rightarrow> 'a action) \<Rightarrow> 'a action" where
  "try_catch body handler s =
     (case body s of (Inl e, s') \<Rightarrow> handler e s' | (Inr x, s') \<Rightarrow> (Inr x, s'))"

text \<open>
  \<^verbatim>\<open>try { body } catch (e) { handler(e) } finally { fin }\<close>: the \<^verbatim>\<open>finally\<close> block
  runs after the body or the handler, whichever way they completed (also by
  \<^verbatim>\<open>return\<close>); when it throws, its exception replaces their completion, otherwise
  their completion stands.
\<close>

definition try_catch_finally ::
  "'a action \<Rightarrow> (error \<Rightarrow> 'a action) \<Rightarrow> unit action \<Rightarrow> 'a action" where
  "try_catch_finally body handler fin s =
     (case try_catch body handler s of
        (r, s') \<Rightarrow> (case fin s' of (Inl e, s'') \<Rightarrow> (Inl e, s'') | (Inr u, s'') \<Rightarrow> (r, s'')))"

text \<open>\<^verbatim>\<open>for (const x of xs) { body(x) }\<close>.\<close>

primrec for_each :: "('a \<Rightarrow> unit action) \<Rightarrow> 'a list \<Rightarrow> unit action" where
  "for_each body [] = ret ()"
| "for_each body (x # xs) = seq (body x) (for_each body xs)"

text \<open>\<^verbatim>\<open>client.request(route, ...)\<close>: the request is made, and may throw.\<close>

definition client_request :: "world \<Rightarrow> string \<Rightarrow> unit action" where
  "client_request w route =
     seq (emit (ClientRequest route)) (lift_unit (client_request_result w route))"

section \<open>\<^verbatim>\<open>uploadDatabases\<close>\<close>

record GitHubApiDetails =
  auth :: string
  url :: string

definition probe_route :: string where
  "probe_route = ''GET /repos/:owner/:repo/code-scanning/databases''"

definition put_route :: "string \<Rightarrow> string" where
  "put_route language = ''PUT /repos/:owner/:repo/code-scanning/databases/'' @ language"

text \<open>
  Lines 79--94: the probe. \<open>True\<close>: the request succeeded and the function goes on;
  \<open>False\<close>: the \<^verbatim>\<open>catch\<close> block logged and returned.
\<close>

definition probe_databases :: "world \<Rightarrow> bool action" where
  "probe_databases w =
     try_catch (seq (client_request w probe_route) (ret True))
       (\<lambda>e. seq (if isHTTPError e \<and> http_status e = Some 404
                 then emit (LoggerDebug
                        ''Repository is not opted in to database uploads. Skipping upload.'')
                 else seq (emit (ConsoleLog e))
                        (emit (LoggerInfo (''Skipping database upload due to unknown error: ''
                                 @ error_to_string w e))))
              (ret False))"

text \<open>Lines 98--119: the body of the loop over \<^verbatim>\<open>config.languages\<close>.\<close>

definition upload_language :: "world \<Rightarrow> Config \<Rightarrow> string \<Rightarrow> unit action" where
  "upload_language w cfg language =
     (let databasePath = getCodeQLDatabasePath w cfg language;
          databaseBundlePath = databasePath @ ''.zip''
      in seq (emit (DatabaseBundle databasePath databaseBundlePath))
        (seq (lift_unit (databaseBundle_result w databasePath))
        (seq (emit (ReadFileSync databaseBundlePath))
        (bnd (lift (readFileSync_result w databaseBundlePath)) (\<lambda>payload.
         try_catch
           (seq (client_request w (put_route language))
                (emit (LoggerDebug (''Successfully uploaded database for '' @ language))))
           (\<lambda>e. seq (emit (ConsoleLog e))
                  (emit (LoggerWarning (''Failed to upload database for '' @ language
                           @ '': '' @ error_to_string w e)))))))))"

definition uploadDatabases ::
  "world \<Rightarrow> RepositoryNwo \<Rightarrow> Config \<Rightarrow> GitHubApiDetails \<Rightarrow> unit action" where
  "uploadDatabases w repositoryNwo cfg apiDetails =
     bnd (lift (getRequiredInput_result w ''upload-database'')) (\<lambda>flag.
     if flag \<noteq> ''true''
     then emit (LoggerDebug ''Database upload disabled in workflow. Skipping upload.'')
     else if gitHubVersion cfg \<noteq> DOTCOM
     then emit (LoggerDebug ''Not running against github.com. Skipping upload.'')
     else bnd (lift (isAnalyzingDefaultBranch_result w)) (\<lambda>isDefault.
       if \<not> isDefault
       then emit (LoggerDebug ''Not analyzing default branch. Skipping upload.'')
       else bnd (probe_databases w) (\<lambda>proceed.
         if \<not> proceed then ret ()
         else for_each (upload_language w cfg) (languages cfg))))"

section \<open>The debug log walk\<close>

text \<open>
  Lines 212--227, \<^verbatim>\<open>walkLogFiles\<close>, on the entries a directory listing returned: the
  actions performed, and the error when a read throws (the walk stops there).
\<close>

fun walkLogFiles :: "string \<Rightarrow> dirent list \<Rightarrow> error option \<times> event list"
  and walk_entry :: "string \<Rightarrow> dirent \<Rightarrow> error option \<times> event list" where
  "walkLogFiles language [] = (None, [])"
| "walkLogFiles language (entry # entries) =
     (case walk_entry language entry of
        (Some e, evs) \<Rightarrow> (Some e, evs)
      | (None, evs) \<Rightarrow>
          (case walkLogFiles language entries of (r, evs') \<Rightarrow> (r, evs @ evs')))"
| "walk_entry language (FileEnt name contents) =
     (case contents of
        Inl e \<Rightarrow> (Some e, [StartGroup (''CodeQL Debug Logs - '' @ language @ '' - '' @ name)])
      | Inr text \<Rightarrow>
          (None, [StartGroup (''CodeQL Debug Logs - '' @ language @ '' - '' @ name),
                  StdoutWrite text, EndGroup]))"
| "walk_entry language (DirEnt name entries) = walkLogFiles language entries"
| "walk_entry language (UnreadableDirEnt name e) = (Some e, [])"
| "walk_entry language (OtherEnt name) = (None, [])"

text \<open>Lines 209--228: one language's log directory.\<close>

definition print_language_logs ::
  "world \<Rightarrow> Config \<Rightarrow> string \<Rightarrow> error option \<times> event list" where
  "print_language_logs w cfg language =
     (let databaseDirectory = getCodeQLDatabasePath w cfg language;
          logsDirectory = path_join w databaseDirectory ''log''
      in case readdirSync_result w logsDirectory of
           Inl e \<Rightarrow> (Some e, [])
         | Inr entries \<Rightarrow> walkLogFiles language entries)"

text \<open>Lines 208--229: the loop over the languages, stopping at the first error.\<close>

primrec print_debug_logs ::
  "world \<Rightarrow> Config \<Rightarrow> string list \<Rightarrow> error option \<times> event list" where
  "print_debug_logs w cfg [] = (None, [])"
| "print_debug_logs w cfg (language # rest) =
     (case print_language_logs w cfg language of
        (Some e, evs) \<Rightarrow> (Some e, evs)
      | (None, evs) \<Rightarrow>
          (case print_debug_logs w cfg rest of (r, evs') \<Rightarrow> (r, evs @ evs')))"

text \<open>Lines 205--231: the \<^verbatim>\<open>finally\<close> block.\<close>

definition run_finally :: "world \<Rightarrow> unit action" where
  "run_finally w =
     bnd read_config (\<lambda>c.
       case c of
         None \<Rightarrow> ret ()
       | Some cfg \<Rightarrow>
           if isDebug w
           then seq (emit (CoreInfo ''Debug mode is on. Printing CodeQL debug logs...''))
                 (case print_debug_logs w cfg (languages cfg) of
                    (r, evs) \<Rightarrow> seq (emit_all evs) (lift_unit r))
           else ret ())"

section \<open>\<^verbatim>\<open>run\<close>\<close>

text \<open>How a block completes when it does not throw: it falls through, or it returns.\<close>

datatype completion = Normal | Return

definition config_not_found_message :: string where
  "config_not_found_message =
     ''Config file could not be found at expected location. Has the 'init' action been called?''"

text \<open>Lines 172--175: \<^verbatim>\<open>dbLocations[language] = ...\<close> for each language in turn.\<close>

definition dbLocations :: "world \<Rightarrow> Config \<Rightarrow> (string \<times> string) list" where
  "dbLocations w cfg =
     fold (\<lambda>language m. AList.update language (getCodeQLDatabasePath w cfg language) m)
       (languages cfg) []"

text \<open>\<^verbatim>\<open>actionsUtil.getOptionalInput("cleanup-level") || "brutal"\<close>.\<close>

definition cleanup_level :: "string option \<Rightarrow> string" where
  "cleanup_level v = (case v of None \<Rightarrow> ''brutal'' | Some l \<Rightarrow> if l = [] then ''brutal'' else l)"

text \<open>Lines 149--194: the \<^verbatim>\<open>try\<close> block once the configuration is there.\<close>

definition run_analysis :: "world \<Rightarrow> Config \<Rightarrow> completion action" where
  "run_analysis w cfg =
     bnd (lift (getRequiredInput_result w ''token'')) (\<lambda>token.
     bnd (lift (getRequiredEnvParam_result w ''GITHUB_SERVER_URL'')) (\<lambda>serverUrl.
     let apiDetails = \<lparr>auth = token, url = serverUrl\<rparr> in
     bnd (lift (getRequiredInput_result w ''output'')) (\<lambda>outputDir.
     bnd (lift (getMemoryFlag_result w (getOptionalInput_result w ''ram''))) (\<lambda>memoryFlag.
     bnd (lift (getRequiredInput_result w ''add-snippets'')) (\<lambda>addSnippets.
     bnd (lift (getAddSnippetsFlag_result w addSnippets)) (\<lambda>addSnippetsFlag.
     bnd (lift (getThreadsFlag_result w (getOptionalInput_result w ''threads''))) (\<lambda>threadsFlag.
     seq (emit (RunAnalyze outputDir memoryFlag addSnippetsFlag threadsFlag
                  (getOptionalInput_result w ''category'')))
    (bnd (lift (runAnalyze_result w)) (\<lambda>queriesStats.
     seq (if getOptionalInput_result w ''cleanup-level'' \<noteq> Some ''none''
          then seq (emit (RunCleanup (cleanup_level (getOptionalInput_result w ''cleanup-level''))))
                 (lift_unit (runCleanup_result w
                    (cleanup_level (getOptionalInput_result w ''cleanup-level''))))
          else ret ())
    (seq (emit (SetOutput ''db-locations'' (dbLocations w cfg)))
    (seq (bnd (lift (getRequiredInput_result w ''upload'')) (\<lambda>uploadInput.
            if uploadInput = ''true''
            then seq (emit (UploadFromActions outputDir))
                   (bnd (lift (uploadFromActions_result w)) (\<lambda>uploadStats.
                      assign_stats (Some (spread_queries_upload queriesStats uploadStats))))
            else seq (emit (LoggerInfo ''Not uploading results''))
                   (assign_stats (Some (spread_queries queriesStats)))))
    (bnd (lift (getRequiredEnvParam_result w ''GITHUB_REPOSITORY'')) (\<lambda>repository.
     bnd (lift (parseRepositoryNwo_result w repository)) (\<lambda>repositoryNwo.
     seq (uploadDatabases w repositoryNwo cfg apiDetails) (ret Normal)))))))))))))))"

text \<open>Lines 129--147: the start of the \<^verbatim>\<open>try\<close> block.\<close>

definition starting_report :: "nat \<Rightarrow> FinishStatusReport" where
  "starting_report startedAt =
     base_only (createStatusReportBase ''finish'' ''starting'' startedAt None None)"

definition run_try :: "world \<Rightarrow> nat \<Rightarrow> completion action" where
  "run_try w startedAt =
     bnd (actionsUtil_sendStatusReport w (starting_report startedAt)) (\<lambda>proceed.
     if \<not> proceed then ret Return
     else seq (emit GetConfig)
         (bnd (lift (getConfig_result w)) (\<lambda>c.
          seq (assign_config c)
            (case c of
               None \<Rightarrow> throw (Err PlainError config_not_found_message
                                (new_Error_stack w config_not_found_message))
             | Some cfg \<Rightarrow> run_analysis w cfg))))"

text \<open>Lines 195--204: the \<^verbatim>\<open>catch\<close> block, which ends in \<^verbatim>\<open>return\<close>.\<close>

definition run_catch :: "world \<Rightarrow> nat \<Rightarrow> error \<Rightarrow> completion action" where
  "run_catch w startedAt err =
     seq (emit (SetFailed (message err)))
    (seq (emit (ConsoleLog err))
    (seq (case kind err of
            CodeQLAnalysisError q \<Rightarrow> assign_stats (Some (spread_queries q))
          | PlainError \<Rightarrow> ret ()
          | HTTPError n \<Rightarrow> ret ())
    (bnd read_stats (\<lambda>st.
     seq (sendStatusReport w startedAt st (Some err)) (ret Return)))))"

text \<open>Lines 123--234.\<close>

definition run :: "world \<Rightarrow> unit action" where
  "run w =
     (let startedAt = new_Date w in
      seq (assign_stats None)
     (seq (assign_config None)
     (seq (emit InitializeEnvironment)
     (bnd (try_catch_finally (run_try w startedAt) (run_catch w startedAt) (run_finally w))
        (\<lambda>c. case c of
                Return \<Rightarrow> ret ()
              | Normal \<Rightarrow> bnd read_stats (\<lambda>st. sendStatusReport w startedAt st None))))))"

text \<open>Lines 236--243.\<close>

definition runWrapper :: "world \<Rightarrow> unit action" where
  "runWrapper w =
     try_catch (run w)
       (\<lambda>err. seq (emit (SetFailed (''analyze action failed: '' @ error_to_string w err)))
                (emit (ConsoleLog err)))"

definition initial_state :: run_state where
  "initial_state = \<lparr>stats = None, config = None, trace = []\<rparr>"

text \<open>The status records among a list of actions, in the order they were sent.\<close>

fun sent_report :: "event \<Rightarrow> FinishStatusReport option" where
  "sent_report (SendStatusReport r) = Some r"
| "sent_report ev = None"

definition reports :: "event list \<Rightarrow> FinishStatusReport list" where
  "reports evs = List.map_filter sent_report evs"

section \<open>Reference resolution\<close>

text \<open>
  Modelled from the spec: \<^verbatim>\<open>getRef\<close> is defined in \<^verbatim>\<open>actions-util.ts\<close>, which is not
  among the source files (only its tests are). The spec's contract is
  \<^verbatim>\<open>resolveRef(declaredRef, checkedOutOid, currentOidProvider) -> ref\<close>: it fails with
  \<^verbatim>\<open>InvalidStateError\<close> on an empty declared ref; returns a ref that does not match
  \<^verbatim>\<open>refs/pull/<n>/merge\<close> unchanged; otherwise calls the provider and returns the
  declared ref when the two commit identifiers are equal, and \<^verbatim>\<open>refs/pull/<n>/head\<close>
  when they differ. \<^verbatim>\<open><n>\<close> is read as a non-empty run of decimal digits.
\<close>

datatype resolve_error = InvalidStateError

definition is_digit :: "char \<Rightarrow> bool" where
  "is_digit c = (c \<in> set ''0123456789'')"

definition pull_request_number :: "string \<Rightarrow> string option" where
  "pull_request_number r =
     (let n = take (length r - length ''refs/pull/'' - length ''/merge'')
                (drop (length ''refs/pull/'') r)
      in if r = ''refs/pull/'' @ n @ ''/merge'' \<and> n \<noteq> [] \<and> list_all is_digit n
         then Some n else None)"

definition resolveRef :: "string \<Rightarrow> string \<Rightarrow> (unit \<Rightarrow> string) \<Rightarrow> resolve_error + string" where
  "resolveRef declaredRef checkedOutOid currentOidProvider =
     (if declaredRef = [] then Inl InvalidStateError
      else case pull_request_number declaredRef of
             None \<Rightarrow> Inr declaredRef
           | Some n \<Rightarrow>
               if currentOidProvider () = checkedOutOid then Inr declaredRef
               else Inr (''refs/pull/'' @ n @ ''/head''))"

section \<open>Vocabulary of the proofs\<close>

text \<open>The actions of the debug log dump (lines 207--222).\<close>

fun is_debug_output :: "event \<Rightarrow> bool" where
  "is_debug_output (CoreInfo m) = True"
| "is_debug_output (StartGroup m) = True"
| "is_debug_output (StdoutWrite m) = True"
| "is_debug_output EndGroup = True"
| "is_debug_output ev = False"

text \<open>
  The actions the \<^verbatim>\<open>try\<close> block performs after the starting record: neither a status
  record nor debug output.
\<close>

definition body_event :: "event \<Rightarrow> bool" where
  "body_event ev = (sent_report ev = None \<and> \<not> is_debug_output ev)"

text \<open>
  \<open>emits P Q m\<close>: whatever the state, \<open>m\<close> leaves \<^verbatim>\<open>config\<close> alone, adds only actions
  satisfying \<open>P\<close> to the trace, and a value it returns satisfies \<open>Q\<close>.
\<close>

definition emits :: "(event \<Rightarrow> bool) \<Rightarrow> ('a \<Rightarrow> bool) \<Rightarrow> 'a action \<Rightarrow> bool" where
  "emits P Q m =
     (\<forall>s. case m s of
            (r, s') \<Rightarrow>
              config s' = config s \<and> (\<exists>evs. trace s' = trace s @ evs \<and> list_all P evs) \<and>
              (case r of Inl e \<Rightarrow> True | Inr x \<Rightarrow> Q x))"

text \<open>The error thrown at lines 144--146.\<close>

definition config_not_found :: "world \<Rightarrow> error" where
  "config_not_found w =
     Err PlainError config_not_found_message (new_Error_stack w config_not_found_message)"

text \<open>Lines 199--201: \<^verbatim>\<open>stats\<close> after the \<^verbatim>\<open>catch\<close> block has looked at the error.\<close>

definition catch_stats :: "error \<Rightarrow> AnalysisStatusReport option \<Rightarrow> AnalysisStatusReport option" where
  "catch_stats err st =
     (case kind err of CodeQLAnalysisError q \<Rightarrow> Some (spread_queries q)
      | PlainError \<Rightarrow> st | HTTPError n \<Rightarrow> st)"

text \<open>Lines 196--203: what the \<^verbatim>\<open>catch\<close> block does.\<close>

definition failure_events :: "nat \<Rightarrow> error \<Rightarrow> AnalysisStatusReport option \<Rightarrow> event list" where
  "failure_events t err st =
     [SetFailed (message err), ConsoleLog err,
      SendStatusReport (finishStatusReport t st (Some err))]"

text \<open>
  The \<^verbatim>\<open>finally\<close> block as a function of \<^verbatim>\<open>config\<close>: the error it throws, if any,
  and the actions it performs.
\<close>

definition debug_output :: "world \<Rightarrow> Config option \<Rightarrow> error option \<times> event list" where
  "debug_output w c =
     (case c of
        None \<Rightarrow> (None, [])
      | Some cfg \<Rightarrow>
          if isDebug w
          then (case print_debug_logs w cfg (languages cfg) of
                  (r, evs) \<Rightarrow>
                    (r, CoreInfo ''Debug mode is on. Printing CodeQL debug logs...'' # evs))
          else (None, []))"

text \<open>The state of \<^verbatim>\<open>run\<close> when it enters the \<^verbatim>\<open>try\<close> block.\<close>

definition after_init :: run_state where
  "after_init = \<lparr>stats = None, config = None, trace = [InitializeEnvironment]\<rparr>"

text \<open>The configuration the provider hands out, if it hands one out.\<close>

definition configured :: "world \<Rightarrow> Config option" where
  "configured w = (case getConfig_result w of Inl e \<Rightarrow> None | Inr c \<Rightarrow> c)"

text \<open>The action of line 154: \<^verbatim>\<open>runAnalyze\<close> is called.\<close>

fun analysis_invoked :: "event \<Rightarrow> bool" where
  "analysis_invoked (RunAnalyze outputDir memoryFlag addSnippetsFlag threadsFlag category) = True"
| "analysis_invoked ev = False"

text \<open>The routes requested of the API client, in order.\<close>

fun requested_route :: "event \<Rightarrow> string option" where
  "requested_route (ClientRequest route) = Some route"
| "requested_route ev = None"

definition requests :: "event list \<Rightarrow> string list" where
  "requests evs = List.map_filter requested_route evs"

text \<open>
  Lines 99--104 succeed for a language: \<^verbatim>\<open>codeql.databaseBundle\<close> and
  \<^verbatim>\<open>fs.readFileSync\<close> of the bundle both return.
\<close>

definition bundle_ok :: "world \<Rightarrow> Config \<Rightarrow> string \<Rightarrow> bool" where
  "bundle_ok w cfg language =
     (databaseBundle_result w (getCodeQLDatabasePath w cfg language) = None \<and>
      (case readFileSync_result w (getCodeQLDatabasePath w cfg language @ ''.zip'') of
         Inl e \<Rightarrow> False | Inr payload \<Rightarrow> True))"

section \<open>Concrete runs\<close>

text \<open>
  A run in which every collaborator succeeds: two languages, on github.com, on the default
  branch, with uploads enabled and debug mode off.
\<close>

definition example_config :: Config where
  "example_config =
     \<lparr>languages = [''javascript'', ''python''], gitHubVersion = DOTCOM,
      codeQLCmd = ''codeql'', tempDir = ''/tmp''\<rparr>"

definition example_world :: world where
  "example_world =
     \<lparr>new_Date = 0,
      new_Error_stack = (\<lambda>m. None),
      actionsUtil_sendStatusReport_result = (\<lambda>r. True),
      getConfig_result = Inr (Some example_config),
      getRequiredInput_result = (\<lambda>name. Inr ''true''),
      getOptionalInput_result = (\<lambda>name. None),
      getRequiredEnvParam_result = (\<lambda>name. Inr ''octo/demo''),
      getMemoryFlag_result = (\<lambda>v. Inr ''--ram=2048''),
      getAddSnippetsFlag_result = (\<lambda>v. Inr ''--sarif-add-snippets''),
      getThreadsFlag_result = (\<lambda>v. Inr ''--threads=1''),
      runAnalyze_result = Inr no_queries_fields,
      runCleanup_result = (\<lambda>level. None),
      uploadFromActions_result = Inr no_upload_fields,
      parseRepositoryNwo_result = (\<lambda>v. Inr \<lparr>owner = ''octo'', repo = ''demo''\<rparr>),
      isAnalyzingDefaultBranch_result = Inr True,
      client_request_result = (\<lambda>route. None),
      databaseBundle_result = (\<lambda>p. None),
      readFileSync_result = (\<lambda>p. Inr ''zip''),
      readdirSync_result = (\<lambda>p. Inr [FileEnt ''analysis.log'' (Inr ''done'')]),
      getCodeQLDatabasePath = (\<lambda>cfg language. tempDir cfg @ ''/'' @ language),
      isDebug = False,
      path_join = (\<lambda>dir name. dir @ ''/'' @ name),
      error_to_string = (\<lambda>e. ''Error: '' @ message e)\<rparr>"

text \<open>The same run, except that \<^verbatim>\<open>codeql.databaseBundle\<close> throws for every language.\<close>

definition bundle_failure :: error where
  "bundle_failure = Err PlainError ''database bundle failed'' None"

definition bundle_failure_world :: world where
  "bundle_failure_world = example_world\<lparr>databaseBundle_result := (\<lambda>p. Some bundle_failure)\<rparr>"

text \<open>
  The same run, except that \<^verbatim>\<open>fs.readFileSync\<close> throws on the bundle of the first
  language; the bundle of the second language can be read.
\<close>

definition read_failure :: error where
  "read_failure = Err PlainError ''ENOENT: no such file or directory, open'' None"

definition read_failure_world :: world where
  "read_failure_world =
     example_world\<lparr>readFileSync_result :=
       (\<lambda>p. if p = ''/tmp/javascript.zip'' then Inl read_failure else Inr ''zip'')\<rparr>"

text \<open>The same run in debug mode, except that the analysis throws.\<close>

definition analysis_failure :: error where
  "analysis_failure = Err PlainError ''analysis failed'' None"

definition debug_failure_world :: world where
  "debug_failure_world = example_world\<lparr>isDebug := True, runAnalyze_result := Inl analysis_failure\<rparr>"

text \<open>The same run in debug mode, except that no log directory can be listed.\<close>

definition missing_log_directory :: error where
  "missing_log_directory = Err PlainError ''ENOENT: no such file or directory, scandir'' None"

definition missing_logs_world :: world where
  "missing_logs_world =
     example_world\<lparr>isDebug := True, readdirSync_result := (\<lambda>p. Inl missing_log_directory)\<rparr>"

section \<open>Reference resolution: properties\<close>

lemma pull_request_number_merge:
  "n \<noteq> [] \<Longrightarrow> list_all is_digit n \<Longrightarrow> pull_request_number (''refs/pull/'' @ n @ ''/merge'') = Some n"
  by (simp add: pull_request_number_def)

text \<open>
  C2. For every declared ref \<^verbatim>\<open>refs/pull/<n>/merge\<close>: when the provider's commit oid
  equals the recorded checked-out oid, resolution returns the declared merge ref unchanged;
  when the two differ, it returns \<^verbatim>\<open>refs/pull/<n>/head\<close>.
\<close>

theorem resolveRef_merge:
  assumes "n \<noteq> []" and "list_all is_digit n"
  shows "resolveRef (''refs/pull/'' @ n @ ''/merge'') checkedOutOid currentOidProvider =
     Inr (if currentOidProvider () = checkedOutOid then ''refs/pull/'' @ n @ ''/merge''
          else ''refs/pull/'' @ n @ ''/head'')"
proof -
  have pn: "pull_request_number (''refs/pull/'' @ n @ ''/merge'') = Some n"
    using assms by (rule pull_request_number_merge)
  show ?thesis
    unfolding resolveRef_def pn option.case by simp
qed

theorem resolveRef_merge_witness:
  "resolveRef ''refs/pull/1/merge'' (replicate 40 CHR ''a'') (\<lambda>u. replicate 40 CHR ''a'') = Inr ''refs/pull/1/merge''
   \<and> resolveRef ''refs/pull/1/merge'' (replicate 40 CHR ''a'') (\<lambda>u. replicate 40 CHR ''b'') = Inr ''refs/pull/1/head''"
  using resolveRef_merge [of "''1''" "replicate 40 CHR ''a''" "\<lambda>u. replicate 40 CHR ''a''"]
    resolveRef_merge [of "''1''" "replicate 40 CHR ''a''" "\<lambda>u. replicate 40 CHR ''b''"]
  by (simp add: is_digit_def)

text \<open>
  C3. Resolution of the empty declared ref fails with \<^verbatim>\<open>InvalidStateError\<close>, whatever
  the checked-out oid and the provider.
\<close>

theorem resolveRef_empty: "resolveRef [] checkedOutOid currentOidProvider = Inl InvalidStateError"
  by (simp add: resolveRef_def)

section \<open>The status of a finish record\<close>

text \<open>
  C1. The record \<^verbatim>\<open>sendStatusReport\<close> builds and sends has status \<^verbatim>\<open>"failure"\<close> if and
  only if an error was supplied or the stats carry an \<^verbatim>\<open>analyze_failure_language\<close>; in
  every other case, whatever the stats, the status is \<^verbatim>\<open>"success"\<close>.
\<close>

theorem sendStatusReport_status:
  "sendStatusReport w startedAt st err s =
     (Inr (), s\<lparr>trace := trace s @ [SendStatusReport (finishStatusReport startedAt st err)]\<rparr>)
   \<and> (status (base (finishStatusReport startedAt st err)) = ''failure'') =
       ((\<exists>a. st = Some a \<and> analyze_failure_language (queries a) \<noteq> None) \<or> err \<noteq> None)
   \<and> (status (base (finishStatusReport startedAt st err)) = ''success'') =
       (\<not> ((\<exists>a. st = Some a \<and> analyze_failure_language (queries a) \<noteq> None) \<or> err \<noteq> None))"
  by (cases st)
    (auto simp: sendStatusReport_def actionsUtil_sendStatusReport_def seq_def bnd_def emit_def
      ret_def finishStatusReport_def finish_status_def createStatusReportBase_def)

lemma sendStatusReport_eq:
  "sendStatusReport w startedAt st err s =
     (Inr (), s\<lparr>trace := trace s @ [SendStatusReport (finishStatusReport startedAt st err)]\<rparr>)"
  by (simp add: sendStatusReport_def actionsUtil_sendStatusReport_def seq_def bnd_def emit_def ret_def)

section \<open>Unfolding the statements\<close>

lemmas action_defs =
  ret_def throw_def lift_def lift_unit_def emit_def emit_all_def bnd_def seq_def
  assign_stats_def assign_config_def read_stats_def read_config_def

lemmas run_defs =
  run_def run_try_def run_catch_def run_finally_def run_analysis_def uploadDatabases_def
  probe_databases_def upload_language_def client_request_def try_catch_def
  try_catch_finally_def sendStatusReport_def actionsUtil_sendStatusReport_def action_defs
  initial_state_def Let_def

lemmas example_defs =
  example_world_def example_config_def debug_failure_world_def
  missing_logs_world_def

lemmas report_defs =
  reports_def requests_def List.map_filter_def starting_report_def base_only_def
  finishStatusReport_def finish_status_def createStatusReportBase_def

lemmas debug_defs =
  print_language_logs_def

section \<open>The database upload\<close>

lemma upload_language_ok:
  assumes "bundle_ok w cfg language"
  shows "\<exists>evs. upload_language w cfg language s = (Inr (), s\<lparr>trace := trace s @ evs\<rparr>) \<and>
           requests evs = [put_route language]"
proof -
  from assms obtain payload where
    b: "databaseBundle_result w (getCodeQLDatabasePath w cfg language) = None"
    and p: "readFileSync_result w (getCodeQLDatabasePath w cfg language @ ''.zip'') = Inr payload"
    by (auto simp: bundle_ok_def split: sum.splits)
  let ?p = "getCodeQLDatabasePath w cfg language"
  let ?pre = "[DatabaseBundle ?p (?p @ ''.zip''), ReadFileSync (?p @ ''.zip''),
               ClientRequest (put_route language)]"
  show ?thesis
  proof (cases "client_request_result w (put_route language)")
    case None
    let ?evs = "?pre @ [LoggerDebug (''Successfully uploaded database for '' @ language)]"
    from None b p have "upload_language w cfg language s = (Inr (), s\<lparr>trace := trace s @ ?evs\<rparr>)"
      by (simp add: upload_language_def client_request_def try_catch_def action_defs Let_def)
    moreover have "requests ?evs = [put_route language]"
      by (simp add: requests_def List.map_filter_def)
    ultimately show ?thesis by blast
  next
    case (Some e)
    let ?evs = "?pre @ [ConsoleLog e, LoggerWarning (''Failed to upload database for '' @ language
                           @ '': '' @ error_to_string w e)]"
    from Some b p have "upload_language w cfg language s = (Inr (), s\<lparr>trace := trace s @ ?evs\<rparr>)"
      by (simp add: upload_language_def client_request_def try_catch_def action_defs Let_def)
    moreover have "requests ?evs = [put_route language]"
      by (simp add: requests_def List.map_filter_def)
    ultimately show ?thesis by blast
  qed
qed

lemma requests_append: "requests (xs @ ys) = requests xs @ requests ys"
  by (simp add: requests_def List.map_filter_def)

text \<open>
  What the loop does when lines 99--104 succeed for every language: whichever upload
  requests fail, it completes without throwing, and the upload requests made are exactly
  one per configured language, in the order of the configuration.
\<close>

lemma upload_loop_ok:
  assumes "\<forall>language \<in> set langs. bundle_ok w cfg language"
  shows "\<exists>evs. for_each (upload_language w cfg) langs s = (Inr (), s\<lparr>trace := trace s @ evs\<rparr>) \<and>
           requests evs = map put_route langs"
  using assms
proof (induction langs arbitrary: s)
  case Nil
  have "for_each (upload_language w cfg) [] s = (Inr (), s\<lparr>trace := trace s @ []\<rparr>)"
    by (simp add: ret_def)
  moreover have "requests [] = map put_route []"
    by (simp add: requests_def List.map_filter_def)
  ultimately show ?case by blast
next
  case (Cons l ls)
  from Cons.prems have "bundle_ok w cfg l" by simp
  from upload_language_ok [OF this, of s] obtain evs1 where
    e1: "upload_language w cfg l s = (Inr (), s\<lparr>trace := trace s @ evs1\<rparr>)"
    and r1: "requests evs1 = [put_route l]" by blast
  from Cons.prems have "\<forall>language \<in> set ls. bundle_ok w cfg language" by simp
  from Cons.IH [OF this, of "s\<lparr>trace := trace s @ evs1\<rparr>"] obtain evs2 where
    e2: "for_each (upload_language w cfg) ls (s\<lparr>trace := trace s @ evs1\<rparr>) =
           (Inr (), s\<lparr>trace := trace s @ evs1 @ evs2\<rparr>)"
    and r2: "requests evs2 = map put_route ls" by auto
  have "for_each (upload_language w cfg) (l # ls) s = (Inr (), s\<lparr>trace := trace s @ (evs1 @ evs2)\<rparr>)"
    using e1 e2 by (simp add: seq_def bnd_def)
  moreover have "requests (evs1 @ evs2) = map put_route (l # ls)"
    using r1 r2 by (simp add: requests_append)
  ultimately show ?case by blast
qed

lemmas upload_worlds =
  example_world_def example_config_def bundle_failure_world_def read_failure_world_def

text \<open>
  C5. The claim is that \<^verbatim>\<open>uploadDatabases\<close> never throws, whichever eligibility check,
  bundling or upload fails. The code does not keep it: \<^verbatim>\<open>codeql.databaseBundle\<close>
  (line 101) is outside the \<^verbatim>\<open>try\<close> of lines 105--119, whose \<^verbatim>\<open>catch\<close> block is
  commented \<^verbatim>\<open>Log a warning but don't fail the workflow\<close>. With every eligibility check
  passing and a bundling that throws, \<^verbatim>\<open>uploadDatabases\<close> throws that error to its
  caller, after the probe and before any upload request.
\<close>

theorem uploadDatabases_bundle_failure_raises:
  "fst (uploadDatabases bundle_failure_world \<lparr>owner = ''octo'', repo = ''demo''\<rparr> example_config
          \<lparr>auth = ''token'', url = ''url''\<rparr> initial_state) = Inl bundle_failure
   \<and> requests (trace (snd (uploadDatabases bundle_failure_world \<lparr>owner = ''octo'', repo = ''demo''\<rparr>
          example_config \<lparr>auth = ''token'', url = ''url''\<rparr> initial_state))) = [probe_route]"
  by (simp add: upload_worlds run_defs requests_def List.map_filter_def)

text \<open>
  C6. The claim is that a failure for one language keeps no other language from being
  attempted and never fails the run. The code does not keep it for the steps of lines
  99--104, which are outside the \<^verbatim>\<open>try\<close>: when \<^verbatim>\<open>fs.readFileSync\<close> throws on the
  bundle of the first language, the loop throws, no upload request is made (not even for
  the second language, whose bundle is fine), and \<^verbatim>\<open>run\<close> marks the run failed and sends
  a failure record.
\<close>

theorem upload_loop_stops_at_first_failure:
  "fst (for_each (upload_language read_failure_world example_config) (languages example_config)
          initial_state) = Inl read_failure
   \<and> requests (trace (snd (for_each (upload_language read_failure_world example_config)
          (languages example_config) initial_state))) = []
   \<and> bundle_ok read_failure_world example_config ''python''
   \<and> fst (run read_failure_world initial_state) = Inr ()
   \<and> SetFailed (message read_failure) \<in> set (trace (snd (run read_failure_world initial_state)))
   \<and> reports (trace (snd (run read_failure_world initial_state))) =
       [starting_report 0,
        finishStatusReport 0 (Some (spread_queries_upload no_queries_fields no_upload_fields))
          (Some read_failure)]
   \<and> status (base (finishStatusReport 0
          (Some (spread_queries_upload no_queries_fields no_upload_fields))
          (Some read_failure))) = ''failure''"
  by (simp add: upload_worlds run_defs bundle_ok_def requests_def reports_def List.map_filter_def
      starting_report_def base_only_def finishStatusReport_def finish_status_def
      createStatusReportBase_def read_failure_def)

section \<open>What the statements of the try block add to the trace\<close>

lemma emits_ret: "Q x \<Longrightarrow> emits P Q (ret x)"
  by (simp add: emits_def ret_def)

lemma emits_throw: "emits P Q (throw e)"
  by (simp add: emits_def throw_def)

lemma emits_lift: "(\<And>x. Q x) \<Longrightarrow> emits P Q (lift r)"
  by (simp add: emits_def lift_def split: sum.splits)

lemma emits_lift_unit: "Q () \<Longrightarrow> emits P Q (lift_unit r)"
  by (simp add: emits_def lift_unit_def split: option.splits)

lemma emits_emit: "P ev \<Longrightarrow> Q () \<Longrightarrow> emits P Q (emit ev)"
  by (simp add: emits_def emit_def)

lemma emits_assign_stats: "Q () \<Longrightarrow> emits P Q (assign_stats v)"
  by (simp add: emits_def assign_stats_def)

lemma emits_bnd:
  assumes "emits P (\<lambda>x. True) m" and "\<And>x. emits P Q (f x)"
  shows "emits P Q (bnd m f)"
  unfolding emits_def
proof
  fix s
  obtain r s1 where m: "m s = (r, s1)" by (cases "m s")
  from assms(1) m obtain evs where
    c1: "config s1 = config s" and t1: "trace s1 = trace s @ evs" and p1: "list_all P evs"
    by (auto simp: emits_def dest!: spec [of _ s])
  show "case bnd m f s of
          (r, s') \<Rightarrow>
            config s' = config s \<and> (\<exists>evs. trace s' = trace s @ evs \<and> list_all P evs) \<and>
            (case r of Inl e \<Rightarrow> True | Inr x \<Rightarrow> Q x)"
  proof (cases r)
    case (Inl e)
    with m c1 t1 p1 show ?thesis by (auto simp: bnd_def)
  next
    case (Inr x)
    obtain r2 s2 where f: "f x s1 = (r2, s2)" by (cases "f x s1")
    from assms(2) [of x] f obtain evs2 where
      c2: "config s2 = config s1" and t2: "trace s2 = trace s1 @ evs2"
      and p2: "list_all P evs2" and q2: "case r2 of Inl e \<Rightarrow> True | Inr y \<Rightarrow> Q y"
      by (auto simp: emits_def dest!: spec [of _ s1])
    from m Inr f c1 c2 t1 t2 p1 p2 q2 show ?thesis
      by (auto simp: bnd_def)
  qed
qed

lemma emits_seq:
  "emits P (\<lambda>x. True) m \<Longrightarrow> emits P Q k \<Longrightarrow> emits P Q (seq m k)"
  by (simp add: seq_def emits_bnd)

lemma emits_try_catch:
  assumes "emits P Q m" and "\<And>e. emits P Q (h e)"
  shows "emits P Q (try_catch m h)"
  unfolding emits_def
proof
  fix s
  obtain r s1 where m: "m s = (r, s1)" by (cases "m s")
  from assms(1) m obtain evs where
    c1: "config s1 = config s" and t1: "trace s1 = trace s @ evs" and p1: "list_all P evs"
    and q1: "case r of Inl e \<Rightarrow> True | Inr y \<Rightarrow> Q y"
    by (auto simp: emits_def dest!: spec [of _ s])
  show "case try_catch m h s of
          (r, s') \<Rightarrow>
            config s' = config s \<and> (\<exists>evs. trace s' = trace s @ evs \<and> list_all P evs) \<and>
            (case r of Inl e \<Rightarrow> True | Inr x \<Rightarrow> Q x)"
  proof (cases r)
    case (Inr x)
    with m c1 t1 p1 q1 show ?thesis by (auto simp: try_catch_def)
  next
    case (Inl e)
    obtain r2 s2 where h: "h e s1 = (r2, s2)" by (cases "h e s1")
    from assms(2) [of e] h obtain evs2 where
      c2: "config s2 = config s1" and t2: "trace s2 = trace s1 @ evs2"
      and p2: "list_all P evs2" and q2: "case r2 of Inl e \<Rightarrow> True | Inr y \<Rightarrow> Q y"
      by (auto simp: emits_def dest!: spec [of _ s1])
    from m Inl h c1 c2 t1 t2 p1 p2 q2 show ?thesis
      by (auto simp: try_catch_def)
  qed
qed

lemma emits_for_each:
  assumes "\<And>x. emits P (\<lambda>u. True) (body x)"
  shows "emits P (\<lambda>u. True) (for_each body xs)"
  by (induction xs) (simp_all add: emits_ret emits_seq assms)

lemmas emits_intros =
  emits_ret emits_throw emits_lift emits_lift_unit emits_emit emits_assign_stats
  emits_bnd emits_seq emits_try_catch emits_for_each

lemma emits_client_request: "emits body_event (\<lambda>u. True) (client_request w route)"
  by (simp add: client_request_def body_event_def emits_intros)

lemma emits_probe_databases: "emits body_event (\<lambda>u. True) (probe_databases w)"
  by (simp add: probe_databases_def body_event_def emits_intros emits_client_request)

lemma emits_upload_language: "emits body_event (\<lambda>u. True) (upload_language w cfg language)"
  by (simp add: upload_language_def Let_def body_event_def emits_intros emits_client_request)

lemma emits_uploadDatabases:
  "emits body_event (\<lambda>u. True) (uploadDatabases w repositoryNwo cfg apiDetails)"
  by (simp add: uploadDatabases_def body_event_def emits_intros emits_probe_databases
      emits_upload_language)

lemma emits_run_analysis: "emits body_event (\<lambda>c. c = Normal) (run_analysis w cfg)"
  by (simp add: run_analysis_def Let_def body_event_def emits_intros emits_uploadDatabases)

section \<open>The blocks of run\<close>

lemma run_catch_eq:
  "run_catch w t err s =
     (Inr Return,
      s\<lparr>stats := catch_stats err (stats s),
        trace := trace s @ [SetFailed (message err), ConsoleLog err,
          SendStatusReport (finishStatusReport t (catch_stats err (stats s)) (Some err))]\<rparr>)"
  by (cases "kind err")
    (simp_all add: run_catch_def catch_stats_def sendStatusReport_eq action_defs)

lemma run_try_eq:
  "run_try w t s =
     (if \<not> actionsUtil_sendStatusReport_result w (starting_report t)
      then (Inr Return, s\<lparr>trace := trace s @ [SendStatusReport (starting_report t)]\<rparr>)
      else case getConfig_result w of
             Inl e \<Rightarrow> (Inl e, s\<lparr>trace := trace s @ [SendStatusReport (starting_report t), GetConfig]\<rparr>)
           | Inr None \<Rightarrow>
               (Inl (config_not_found w),
                s\<lparr>trace := trace s @ [SendStatusReport (starting_report t), GetConfig],
                  config := None\<rparr>)
           | Inr (Some cfg) \<Rightarrow>
               run_analysis w cfg
                 (s\<lparr>trace := trace s @ [SendStatusReport (starting_report t), GetConfig],
                    config := Some cfg\<rparr>))"
  by (simp add: run_try_def actionsUtil_sendStatusReport_def config_not_found_def action_defs
      split: sum.splits option.splits)

lemma try_catch_run:
  assumes run: "try_catch (run_try w t) (run_catch w t) s0 = (r, s)"
    and c0: "config s0 = None"
  shows "(\<not> actionsUtil_sendStatusReport_result w (starting_report t) \<and> r = Inr Return \<and>
            s = s0\<lparr>trace := trace s0 @ [SendStatusReport (starting_report t)]\<rparr>)
       \<or> (actionsUtil_sendStatusReport_result w (starting_report t) \<and>
            (config s = None \<or> getConfig_result w = Inr (config s)) \<and>
            (\<exists>evs. list_all body_event evs \<and>
               (r = Inr Normal \<and> trace s = trace s0 @ SendStatusReport (starting_report t) # evs
                \<or> (\<exists>err. r = Inr Return \<and>
                      trace s = trace s0 @ SendStatusReport (starting_report t) # evs
                                  @ failure_events t err (stats s)))))"
proof (cases "actionsUtil_sendStatusReport_result w (starting_report t)")
  case False
  with run show ?thesis by (auto simp: try_catch_def run_try_eq)
next
  case True
  note proceed = True
  show ?thesis
  proof (cases "getConfig_result w")
    case (Inl e)
    with run proceed c0 have "config s = None" "r = Inr Return"
      "trace s = trace s0 @ SendStatusReport (starting_report t) # [GetConfig]
                   @ failure_events t e (stats s)"
      by (auto simp: try_catch_def run_try_eq run_catch_eq failure_events_def)
    moreover have "list_all body_event [GetConfig]" by (simp add: body_event_def)
    ultimately show ?thesis using proceed by blast
  next
    case (Inr c)
    show ?thesis
    proof (cases c)
      case None
      with run proceed Inr have "config s = None" "r = Inr Return"
        "trace s = trace s0 @ SendStatusReport (starting_report t) # [GetConfig]
                     @ failure_events t (config_not_found w) (stats s)"
        by (auto simp: try_catch_def run_try_eq run_catch_eq failure_events_def)
      moreover have "list_all body_event [GetConfig]" by (simp add: body_event_def)
      ultimately show ?thesis using proceed by blast
    next
      case (Some cfg)
      define s1 where "s1 = s0\<lparr>trace := trace s0 @ [SendStatusReport (starting_report t), GetConfig],
                    config := Some cfg\<rparr>"
      obtain r2 s2 where body: "run_analysis w cfg s1 = (r2, s2)" by (cases "run_analysis w cfg s1")
      from emits_run_analysis [of w cfg] body obtain evs where
        c2: "config s2 = config s1" and t2: "trace s2 = trace s1 @ evs"
        and p2: "list_all body_event evs" and q2: "case r2 of Inl e \<Rightarrow> True | Inr c \<Rightarrow> c = Normal"
        by (auto simp: emits_def dest!: spec [of _ s1])
      have tr: "run_try w t s0 = (r2, s2)"
        using proceed Inr Some body by (simp add: run_try_eq s1_def)
      have all: "list_all body_event (GetConfig # evs)"
        using p2 by (simp add: body_event_def)
      show ?thesis
      proof (cases r2)
        case (Inl e)
        with run tr have "r = Inr Return" "config s = config s2"
          "trace s = trace s2 @ failure_events t e (stats s)"
          by (auto simp: try_catch_def run_catch_eq failure_events_def)
        with c2 t2 Inr Some have "getConfig_result w = Inr (config s)"
          "trace s = trace s0 @ SendStatusReport (starting_report t) # (GetConfig # evs)
                     @ failure_events t e (stats s)" "r = Inr Return"
          by (simp_all add: s1_def)
        with all proceed show ?thesis by blast
      next
        case (Inr c')
        with q2 have "r2 = Inr Normal" by simp
        with run tr have "r = Inr Normal" "s = s2"
          by (auto simp: try_catch_def)
        with c2 t2 \<open>getConfig_result w = Inr c\<close> Some have "getConfig_result w = Inr (config s)"
          "trace s = trace s0 @ SendStatusReport (starting_report t) # (GetConfig # evs)" "r = Inr Normal"
          by (simp_all add: s1_def)
        with all proceed show ?thesis by blast
      qed
    qed
  qed
qed

lemma try_catch_no_throw:
  "try_catch (run_try w t) (run_catch w t) s0 = (r, s) \<Longrightarrow> \<exists>c. r = Inr c"
  by (auto simp: try_catch_def run_catch_eq split: prod.splits sum.splits)

lemma walk_debug_output:
  "list_all is_debug_output (snd (walkLogFiles language entries))"
  "list_all is_debug_output (snd (walk_entry language entry))"
  by (induction language entries and language entry rule: walkLogFiles_walk_entry.induct)
    (auto split: prod.splits option.splits sum.splits)

lemma print_language_logs_debug_output:
  "list_all is_debug_output (snd (print_language_logs w cfg language))"
  by (simp add: print_language_logs_def Let_def walk_debug_output split: sum.splits)

lemma print_debug_logs_debug_output:
  "list_all is_debug_output (snd (print_debug_logs w cfg langs))"
proof (induction langs)
  case Nil
  show ?case by simp
next
  case (Cons l ls)
  from print_language_logs_debug_output [of w cfg l] Cons show ?case
    by (auto split: prod.splits option.splits)
qed

lemma debug_output_events: "list_all is_debug_output (snd (debug_output w c))"
proof (cases c)
  case None
  then show ?thesis by (simp add: debug_output_def)
next
  case (Some cfg)
  with print_debug_logs_debug_output [of w cfg "languages cfg"] show ?thesis
    by (auto simp: debug_output_def split: prod.splits)
qed

lemma run_finally_eq:
  "run_finally w s =
     (case debug_output w (config s) of
        (d, dbg) \<Rightarrow> (case d of None \<Rightarrow> Inr () | Some e \<Rightarrow> Inl e, s\<lparr>trace := trace s @ dbg\<rparr>))"
  by (simp add: run_finally_def debug_output_def action_defs
      split: option.splits prod.splits)

lemma run_eq:
  "run w initial_state =
     (case try_catch (run_try w (new_Date w)) (run_catch w (new_Date w)) after_init of
        (rc, s3) \<Rightarrow>
          (case debug_output w (config s3) of
             (Some e, dbg) \<Rightarrow> (Inl e, s3\<lparr>trace := trace s3 @ dbg\<rparr>)
           | (None, dbg) \<Rightarrow>
               (case rc of
                  Inl e \<Rightarrow> (Inl e, s3\<lparr>trace := trace s3 @ dbg\<rparr>)
                | Inr Return \<Rightarrow> (Inr (), s3\<lparr>trace := trace s3 @ dbg\<rparr>)
                | Inr Normal \<Rightarrow>
                    (Inr (), s3\<lparr>trace := trace s3 @ dbg @
                       [SendStatusReport (finishStatusReport (new_Date w) (stats s3) None)]\<rparr>))))"
  by (simp add: run_def Let_def try_catch_finally_def run_finally_eq sendStatusReport_eq
      initial_state_def after_init_def action_defs
      split: prod.splits option.splits sum.splits completion.splits)

lemma reports_append: "reports (xs @ ys) = reports xs @ reports ys"
  by (simp add: reports_def List.map_filter_def)

lemma reports_body: "list_all body_event evs \<Longrightarrow> reports evs = []"
  by (induction evs) (auto simp: reports_def body_event_def List.map_filter_def)

lemma reports_debug: "list_all is_debug_output evs \<Longrightarrow> reports evs = []"
proof (induction evs)
  case Nil
  show ?case by (simp add: reports_def List.map_filter_def)
next
  case (Cons ev evs)
  then show ?case by (cases ev) (auto simp: reports_def List.map_filter_def)
qed

lemma reports_failure_events:
  "reports (failure_events t err st) = [finishStatusReport t st (Some err)]"
  by (simp add: failure_events_def reports_def List.map_filter_def)

lemma run_shape:
  assumes run: "run w initial_state = (r, s)"
  shows "(\<not> actionsUtil_sendStatusReport_result w (starting_report (new_Date w)) \<and> r = Inr () \<and>
            trace s = [InitializeEnvironment, SendStatusReport (starting_report (new_Date w))])
       \<or> (actionsUtil_sendStatusReport_result w (starting_report (new_Date w)) \<and>
            (config s = None \<or> getConfig_result w = Inr (config s)) \<and>
            (\<exists>evs. list_all body_event evs \<and>
               ((\<exists>err. r = (case fst (debug_output w (config s)) of None \<Rightarrow> Inr () | Some e \<Rightarrow> Inl e) \<and>
                    trace s = InitializeEnvironment # SendStatusReport (starting_report (new_Date w)) # evs
                      @ failure_events (new_Date w) err (stats s) @ snd (debug_output w (config s)))
                \<or> (r = Inr () \<and> fst (debug_output w (config s)) = None \<and>
                    trace s = InitializeEnvironment # SendStatusReport (starting_report (new_Date w)) # evs
                      @ snd (debug_output w (config s))
                      @ [SendStatusReport (finishStatusReport (new_Date w) (stats s) None)])
                \<or> (\<exists>e. r = Inl e \<and> fst (debug_output w (config s)) = Some e \<and>
                    trace s = InitializeEnvironment # SendStatusReport (starting_report (new_Date w)) # evs
                      @ snd (debug_output w (config s))))))"
proof -
  let ?t = "new_Date w"
  obtain rc s3 where tc: "try_catch (run_try w ?t) (run_catch w ?t) after_init = (rc, s3)"
    by (cases "try_catch (run_try w ?t) (run_catch w ?t) after_init")
  obtain d dbg where dbg: "debug_output w (config s3) = (d, dbg)"
    by (cases "debug_output w (config s3)")
  have c0: "config after_init = None" by (simp add: after_init_def)
  have t0: "trace after_init = [InitializeEnvironment]" by (simp add: after_init_def)
  from run [symmetric] tc dbg have rs:
    "(r, s) = (case d of
         Some e \<Rightarrow> (Inl e, s3\<lparr>trace := trace s3 @ dbg\<rparr>)
       | None \<Rightarrow>
           (case rc of
              Inl e \<Rightarrow> (Inl e, s3\<lparr>trace := trace s3 @ dbg\<rparr>)
            | Inr Return \<Rightarrow> (Inr (), s3\<lparr>trace := trace s3 @ dbg\<rparr>)
            | Inr Normal \<Rightarrow>
                (Inr (), s3\<lparr>trace := trace s3 @ dbg @
                   [SendStatusReport (finishStatusReport ?t (stats s3) None)]\<rparr>)))"
    by (simp add: run_eq)
  have cs: "config s = config s3" and ss: "stats s = stats s3"
    using rs by (auto split: option.splits sum.splits completion.splits)
  from try_catch_run [OF tc c0] consider
    (abort) "\<not> actionsUtil_sendStatusReport_result w (starting_report ?t)" "rc = Inr Return"
      "s3 = after_init\<lparr>trace := trace after_init @ [SendStatusReport (starting_report ?t)]\<rparr>"
  | (completed) evs where "actionsUtil_sendStatusReport_result w (starting_report ?t)"
      "config s3 = None \<or> getConfig_result w = Inr (config s3)"
      "list_all body_event evs" "rc = Inr Normal"
      "trace s3 = trace after_init @ SendStatusReport (starting_report ?t) # evs"
  | (failed) evs err where "actionsUtil_sendStatusReport_result w (starting_report ?t)"
      "config s3 = None \<or> getConfig_result w = Inr (config s3)"
      "list_all body_event evs" "rc = Inr Return"
      "trace s3 = trace after_init @ SendStatusReport (starting_report ?t) # evs
         @ failure_events ?t err (stats s3)"
    by blast
  then show ?thesis
  proof cases
    case abort
    then have "config s3 = None" by (simp add: after_init_def)
    with dbg have "d = None" "dbg = []" by (simp_all add: debug_output_def)
    with rs abort show ?thesis by (simp add: after_init_def)
  next
    case completed
    show ?thesis
    proof (cases d)
      case None
      with rs completed dbg cs ss show ?thesis
        by (intro disjI2) (auto simp: t0)
    next
      case (Some e)
      with rs completed dbg cs ss show ?thesis
        by (intro disjI2) (auto simp: t0)
    qed
  next
    case failed
    show ?thesis
    proof (cases d)
      case None
      with rs failed dbg cs ss show ?thesis
        by (intro disjI2) (auto simp: t0)
    next
      case (Some e)
      with rs failed dbg cs ss show ?thesis
        by (intro disjI2) (auto simp: t0)
    qed
  qed
qed

lemma run_cases [consumes 1, case_names abort failed completed diagnostics_raised]:
  assumes "run w initial_state = (r, s)"
  obtains
    (abort) "\<not> actionsUtil_sendStatusReport_result w (starting_report (new_Date w))" "r = Inr ()"
      "trace s = [InitializeEnvironment, SendStatusReport (starting_report (new_Date w))]"
  | (failed) evs err where
      "actionsUtil_sendStatusReport_result w (starting_report (new_Date w))"
      "config s = None \<or> getConfig_result w = Inr (config s)"
      "list_all body_event evs"
      "r = (case fst (debug_output w (config s)) of None \<Rightarrow> Inr () | Some e \<Rightarrow> Inl e)"
      "trace s = InitializeEnvironment # SendStatusReport (starting_report (new_Date w)) # evs
         @ failure_events (new_Date w) err (stats s) @ snd (debug_output w (config s))"
  | (completed) evs where
      "actionsUtil_sendStatusReport_result w (starting_report (new_Date w))"
      "config s = None \<or> getConfig_result w = Inr (config s)"
      "list_all body_event evs"
      "r = Inr ()" "fst (debug_output w (config s)) = None"
      "trace s = InitializeEnvironment # SendStatusReport (starting_report (new_Date w)) # evs
         @ snd (debug_output w (config s))
         @ [SendStatusReport (finishStatusReport (new_Date w) (stats s) None)]"
  | (diagnostics_raised) evs e where
      "actionsUtil_sendStatusReport_result w (starting_report (new_Date w))"
      "config s = None \<or> getConfig_result w = Inr (config s)"
      "list_all body_event evs"
      "r = Inl e" "fst (debug_output w (config s)) = Some e"
      "trace s = InitializeEnvironment # SendStatusReport (starting_report (new_Date w)) # evs
         @ snd (debug_output w (config s))"
  using run_shape [OF assms] by blast

section \<open>Abort, missing configuration, and the action name of the records\<close>

text \<open>
  C4. When the send of the starting record answers that the run should not continue,
  \<^verbatim>\<open>run\<close> returns at once: the starting record is the only action after the
  initialisation, so the analysis, the cleanup, both uploads and any further status record
  are absent, and \<^verbatim>\<open>runWrapper\<close> adds nothing.
\<close>

theorem run_aborts_at_start:
  assumes "\<not> actionsUtil_sendStatusReport_result w (starting_report (new_Date w))"
  shows "run w initial_state =
           (Inr (), \<lparr>stats = None, config = None,
              trace = [InitializeEnvironment, SendStatusReport (starting_report (new_Date w))]\<rparr>)
         \<and> runWrapper w initial_state = run w initial_state"
proof -
  have r: "run w initial_state =
           (Inr (), \<lparr>stats = None, config = None,
              trace = [InitializeEnvironment, SendStatusReport (starting_report (new_Date w))]\<rparr>)"
    using assms by (simp add: run_eq try_catch_def run_try_eq after_init_def debug_output_def)
  then show ?thesis by (simp add: runWrapper_def try_catch_def)
qed

theorem run_aborts_at_start_witness:
  "run (example_world\<lparr>actionsUtil_sendStatusReport_result := (\<lambda>r. False)\<rparr>) initial_state =
     (Inr (), \<lparr>stats = None, config = None,
        trace = [InitializeEnvironment, SendStatusReport (starting_report 0)]\<rparr>)"
  using run_aborts_at_start [of "example_world\<lparr>actionsUtil_sendStatusReport_result := (\<lambda>r. False)\<rparr>"]
  by (simp add: example_world_def)

text \<open>
  C7. When the configuration provider returns no configuration, \<^verbatim>\<open>run\<close> throws the error
  whose message names the \<^verbatim>\<open>init\<close> action, marks the run failed with that message, sends
  one terminal record with status \<^verbatim>\<open>"failure"\<close> carrying the message, and returns; the
  analysis is never invoked.
\<close>

theorem run_without_config:
  assumes "actionsUtil_sendStatusReport_result w (starting_report (new_Date w))"
    and "getConfig_result w = Inr None"
  shows "run w initial_state =
           (Inr (), \<lparr>stats = None, config = None,
              trace = [InitializeEnvironment, SendStatusReport (starting_report (new_Date w)),
                GetConfig, SetFailed config_not_found_message, ConsoleLog (config_not_found w),
                SendStatusReport
                  (finishStatusReport (new_Date w) None (Some (config_not_found w)))]\<rparr>)
         \<and> status (base (finishStatusReport (new_Date w) None (Some (config_not_found w)))) = ''failure''
         \<and> cause (base (finishStatusReport (new_Date w) None (Some (config_not_found w)))) =
             Some ''Config file could not be found at expected location. Has the 'init' action been called?''
         \<and> list_all (\<lambda>ev. \<not> analysis_invoked ev) (trace (snd (run w initial_state)))"
proof -
  have r: "run w initial_state =
           (Inr (), \<lparr>stats = None, config = None,
              trace = [InitializeEnvironment, SendStatusReport (starting_report (new_Date w)),
                GetConfig, SetFailed config_not_found_message, ConsoleLog (config_not_found w),
                SendStatusReport
                  (finishStatusReport (new_Date w) None (Some (config_not_found w)))]\<rparr>)"
    using assms
    by (simp add: run_eq try_catch_def run_try_eq run_catch_eq after_init_def debug_output_def
        catch_stats_def config_not_found_def)
  have s: "status (base (finishStatusReport (new_Date w) None (Some (config_not_found w)))) = ''failure''"
    by (simp add: finishStatusReport_def finish_status_def createStatusReportBase_def)
  have c: "cause (base (finishStatusReport (new_Date w) None (Some (config_not_found w)))) =
             Some ''Config file could not be found at expected location. Has the 'init' action been called?''"
    by (simp add: finishStatusReport_def createStatusReportBase_def config_not_found_def
        config_not_found_message_def)
  have a: "list_all (\<lambda>ev. \<not> analysis_invoked ev) (trace (snd (run w initial_state)))"
    unfolding r by simp
  from r s c a show ?thesis by blast
qed

theorem run_without_config_witness:
  "list_all (\<lambda>ev. \<not> analysis_invoked ev)
     (trace (snd (run (example_world\<lparr>getConfig_result := Inr None\<rparr>) initial_state)))
   \<and> reports (trace (snd (run (example_world\<lparr>getConfig_result := Inr None\<rparr>) initial_state))) =
       [starting_report 0,
        finishStatusReport 0 None (Some (Err PlainError config_not_found_message None))]"
  using run_without_config [of "example_world\<lparr>getConfig_result := Inr None\<rparr>"]
  by (simp add: example_world_def config_not_found_def reports_def List.map_filter_def)

text \<open>
  C10. Every status record \<^verbatim>\<open>run\<close> sends is built with the action name \<^verbatim>\<open>"finish"\<close>,
  the starting record included: the first record has status \<^verbatim>\<open>"starting"\<close>, any later one
  \<^verbatim>\<open>"success"\<close> or \<^verbatim>\<open>"failure"\<close>.
\<close>

theorem every_report_is_finish:
  "list_all (\<lambda>rep. action_name (base rep) = ''finish'')
     (reports (trace (snd (run w initial_state))))
   \<and> (\<exists>rest. reports (trace (snd (run w initial_state))) = starting_report (new_Date w) # rest
         \<and> status (base (starting_report (new_Date w))) = ''starting''
         \<and> list_all (\<lambda>rep. status (base rep) = ''success'' \<or> status (base rep) = ''failure'') rest)"
proof -
  obtain r s where run: "run w initial_state = (r, s)" by (cases "run w initial_state")
  let ?t = "new_Date w"
  have dbg: "reports (snd (debug_output w (config s))) = []"
    by (rule reports_debug) (rule debug_output_events)
  have start: "reports [InitializeEnvironment, SendStatusReport (starting_report ?t)] = [starting_report ?t]"
    by (simp add: reports_def List.map_filter_def)
  have one: "\<And>rep. reports [SendStatusReport rep] = [rep]"
    by (simp add: reports_def List.map_filter_def)
  have cases: "reports (trace s) = [starting_report ?t]
     \<or> (\<exists>eo. reports (trace s) = [starting_report ?t, finishStatusReport ?t (stats s) eo])"
    using run
  proof (cases rule: run_cases)
    case abort
    then show ?thesis using start by simp
  next
    case (failed evs err)
    then have "reports (trace s) = [starting_report ?t, finishStatusReport ?t (stats s) (Some err)]"
      using reports_append [of "[InitializeEnvironment, SendStatusReport (starting_report ?t)]"
          "evs @ failure_events ?t err (stats s) @ snd (debug_output w (config s))"]
      by (simp add: reports_append reports_body reports_failure_events dbg start)
    then show ?thesis by blast
  next
    case (completed evs)
    then have "reports (trace s) = [starting_report ?t, finishStatusReport ?t (stats s) None]"
      using reports_append [of "[InitializeEnvironment, SendStatusReport (starting_report ?t)]"
          "evs @ snd (debug_output w (config s)) @ [SendStatusReport (finishStatusReport ?t (stats s) None)]"]
      by (simp add: reports_append reports_body dbg start one)
    then show ?thesis by blast
  next
    case (diagnostics_raised evs e)
    then have "reports (trace s) = [starting_report ?t]"
      using reports_append [of "[InitializeEnvironment, SendStatusReport (starting_report ?t)]"
          "evs @ snd (debug_output w (config s))"]
      by (simp add: reports_append reports_body dbg start)
    then show ?thesis by blast
  qed
  have fin: "\<And>eo. action_name (base (finishStatusReport ?t (stats s) eo)) = ''finish''
      \<and> (status (base (finishStatusReport ?t (stats s) eo)) = ''success''
          \<or> status (base (finishStatusReport ?t (stats s) eo)) = ''failure'')"
    by (simp add: finishStatusReport_def createStatusReportBase_def finish_status_def)
  have st: "action_name (base (starting_report ?t)) = ''finish''"
    "status (base (starting_report ?t)) = ''starting''"
    by (simp_all add: starting_report_def base_only_def createStatusReportBase_def)
  from cases fin st run show ?thesis by auto
qed

section \<open>The terminal outcome of a run\<close>

text \<open>
  C8 as stated fails: in debug mode, when the analysis throws, the \<^verbatim>\<open>catch\<close> block sends
  the failure record and returns, and the \<^verbatim>\<open>finally\<close> block prints the debug logs after
  it; the record is not the last action of the run.
\<close>

theorem failure_record_followed_by_debug_output:
  "reports (trace (snd (run debug_failure_world initial_state))) =
     [starting_report 0, finishStatusReport 0 None (Some analysis_failure)]
   \<and> last (trace (snd (run debug_failure_world initial_state))) = EndGroup
   \<and> fst (run debug_failure_world initial_state) = Inr ()"
  by (simp add: example_defs run_defs debug_defs report_defs analysis_failure_def)

lemma debug_output_config:
  assumes "config s = None \<or> getConfig_result w = Inr (config s)"
    and "fst (debug_output w (configured w)) = None"
  shows "fst (debug_output w (config s)) = None"
  using assms by (auto simp: configured_def debug_output_def)

lemma example_debug_walk_ok:
  "fst (debug_output (example_world\<lparr>isDebug := True\<rparr>)
          (configured (example_world\<lparr>isDebug := True\<rparr>))) = None"
  by (simp add: example_defs debug_defs configured_def debug_output_def)

text \<open>
  C8, as amended. Every run whose debug log walk raises no error returns, and commits to
  exactly one of three outcomes: the early return after the starting record alone; a single
  failure record, after which only the debug output of the \<^verbatim>\<open>finally\<close> block follows
  (nothing, when debug mode is off or no configuration was loaded); or a single record sent
  by the last line of \<^verbatim>\<open>run\<close>, which is then the last action.
\<close>

theorem terminal_outcome:
  assumes ok: "fst (debug_output w (configured w)) = None"
    and run: "run w initial_state = (r, s)"
  shows "r = Inr () \<and>
     (\<not> actionsUtil_sendStatusReport_result w (starting_report (new_Date w)) \<and>
        trace s = [InitializeEnvironment, SendStatusReport (starting_report (new_Date w))]
      \<or> actionsUtil_sendStatusReport_result w (starting_report (new_Date w)) \<and>
        (\<exists>before err.
           trace s = before
             @ SendStatusReport (finishStatusReport (new_Date w) (stats s) (Some err))
             # snd (debug_output w (config s)) \<and>
           reports (trace s) =
             [starting_report (new_Date w), finishStatusReport (new_Date w) (stats s) (Some err)] \<and>
           status (base (finishStatusReport (new_Date w) (stats s) (Some err))) = ''failure'' \<and>
           (isDebug w \<and> config s \<noteq> None \<or>
            last (trace s) =
              SendStatusReport (finishStatusReport (new_Date w) (stats s) (Some err))))
      \<or> actionsUtil_sendStatusReport_result w (starting_report (new_Date w)) \<and>
        (\<exists>before.
           trace s = before @ [SendStatusReport (finishStatusReport (new_Date w) (stats s) None)] \<and>
           reports (trace s) =
             [starting_report (new_Date w), finishStatusReport (new_Date w) (stats s) None]))"
proof -
  let ?t = "new_Date w"
  let ?start = "[InitializeEnvironment, SendStatusReport (starting_report ?t)]"
  let ?dbg = "snd (debug_output w (config s))"
  have dbg: "reports ?dbg = []"
    by (rule reports_debug) (rule debug_output_events)
  have start: "reports ?start = [starting_report ?t]"
    by (simp add: reports_def List.map_filter_def)
  have one: "\<And>rep. reports [SendStatusReport rep] = [rep]"
    by (simp add: reports_def List.map_filter_def)
  from run show ?thesis
  proof (cases rule: run_cases)
    case abort
    then show ?thesis by simp
  next
    case (failed evs err)
    let ?rep = "finishStatusReport ?t (stats s) (Some err)"
    from failed(2) ok have "fst (debug_output w (config s)) = None"
      by (rule debug_output_config)
    with failed have r: "r = Inr ()" by simp
    have tr: "trace s = (?start @ evs @ [SetFailed (message err), ConsoleLog err])
                @ SendStatusReport ?rep # ?dbg"
      using failed(5) by (simp add: failure_events_def)
    have "reports (trace s) = reports ?start @ reports evs @ reports (failure_events ?t err (stats s))
            @ reports ?dbg"
      using failed(5) reports_append [of ?start "evs @ failure_events ?t err (stats s) @ ?dbg"]
      by (simp add: reports_append)
    then have rp: "reports (trace s) = [starting_report ?t, ?rep]"
      using failed(3) by (simp add: reports_body reports_failure_events dbg start)
    have st: "status (base ?rep) = ''failure''"
      by (simp add: finishStatusReport_def finish_status_def createStatusReportBase_def)
    have la: "isDebug w \<and> config s \<noteq> None \<or> last (trace s) = SendStatusReport ?rep"
    proof (cases "isDebug w \<and> config s \<noteq> None")
      case True
      then show ?thesis by blast
    next
      case False
      then have "snd (debug_output w (config s)) = []"
        by (auto simp: debug_output_def split: option.splits)
      with tr have "last (trace s) = SendStatusReport ?rep" by simp
      then show ?thesis by blast
    qed
    from r tr rp st la failed(1) show ?thesis by blast
  next
    case (completed evs)
    let ?rep = "finishStatusReport ?t (stats s) None"
    have tr: "trace s = (?start @ evs @ ?dbg) @ [SendStatusReport ?rep]"
      using completed(6) by simp
    have "reports (trace s) = reports ?start @ reports evs @ reports ?dbg @ reports [SendStatusReport ?rep]"
      using completed(6) reports_append [of ?start "evs @ ?dbg @ [SendStatusReport ?rep]"]
      by (simp add: reports_append)
    then have rp: "reports (trace s) = [starting_report ?t, ?rep]"
      using completed(3) by (simp add: reports_body dbg start one)
    from completed(1,4) tr rp show ?thesis by blast
  next
    case (diagnostics_raised evs e)
    from diagnostics_raised(2) ok have "fst (debug_output w (config s)) = None"
      by (rule debug_output_config)
    with diagnostics_raised(5) show ?thesis by simp
  qed
qed

theorem terminal_outcome_witness:
  "fst (run (example_world\<lparr>isDebug := True\<rparr>) initial_state) = Inr ()"
proof -
  obtain r s where run: "run (example_world\<lparr>isDebug := True\<rparr>) initial_state = (r, s)"
    by (cases "run (example_world\<lparr>isDebug := True\<rparr>) initial_state")
  from terminal_outcome [OF example_debug_walk_ok run] have "r = Inr ()" by blast
  with run show ?thesis by simp
qed

section \<open>The debug log dump\<close>

text \<open>
  C9 as stated fails: in debug mode, with a log directory that cannot be listed,
  \<^verbatim>\<open>fs.readdirSync\<close> throws out of the \<^verbatim>\<open>finally\<close> block; \<^verbatim>\<open>run\<close> throws and the
  record of line 233 is never sent, where the same run with debug mode off returns and
  sends it.
\<close>

theorem missing_log_directory_changes_run:
  "fst (run missing_logs_world initial_state) = Inl missing_log_directory
   \<and> reports (trace (snd (run missing_logs_world initial_state))) = [starting_report 0]
   \<and> fst (run (missing_logs_world\<lparr>isDebug := False\<rparr>) initial_state) = Inr ()
   \<and> reports (trace (snd (run (missing_logs_world\<lparr>isDebug := False\<rparr>) initial_state))) =
       [starting_report 0,
        finishStatusReport 0 (Some (spread_queries_upload no_queries_fields no_upload_fields)) None]"
  by (simp add: example_defs run_defs debug_defs report_defs)

lemma client_request_isDebug [simp]:
  "client_request (w\<lparr>isDebug := b\<rparr>) = client_request w"
  by (simp add: client_request_def fun_eq_iff)

lemma probe_databases_isDebug [simp]:
  "probe_databases (w\<lparr>isDebug := b\<rparr>) = probe_databases w"
  by (simp add: probe_databases_def cong: if_cong)

lemma upload_language_isDebug [simp]:
  "upload_language (w\<lparr>isDebug := b\<rparr>) = upload_language w"
  by (simp add: upload_language_def fun_eq_iff)

lemma uploadDatabases_isDebug [simp]:
  "uploadDatabases (w\<lparr>isDebug := b\<rparr>) = uploadDatabases w"
  by (simp add: uploadDatabases_def fun_eq_iff cong: if_cong)

lemma dbLocations_isDebug [simp]: "dbLocations (w\<lparr>isDebug := b\<rparr>) = dbLocations w"
  by (simp add: dbLocations_def fun_eq_iff)

lemma run_analysis_isDebug [simp]:
  "run_analysis (w\<lparr>isDebug := b\<rparr>) = run_analysis w"
  by (simp add: run_analysis_def fun_eq_iff cong: if_cong)

lemma run_try_isDebug [simp]: "run_try (w\<lparr>isDebug := b\<rparr>) = run_try w"
  by (simp add: run_try_def actionsUtil_sendStatusReport_def fun_eq_iff
      cong: if_cong option.case_cong)

lemma run_catch_isDebug [simp]: "run_catch (w\<lparr>isDebug := b\<rparr>) = run_catch w"
  by (simp add: run_catch_eq fun_eq_iff)

lemma debug_output_off [simp]: "debug_output (w\<lparr>isDebug := False\<rparr>) c = (None, [])"
  by (simp add: debug_output_def split: option.splits)

lemma filter_debug_output:
  "list_all is_debug_output evs \<Longrightarrow> filter (\<lambda>ev. \<not> is_debug_output ev) evs = []"
  by (induction evs) auto

lemma filter_body_events:
  "list_all body_event evs \<Longrightarrow> filter (\<lambda>ev. \<not> is_debug_output ev) evs = evs"
  by (induction evs) (auto simp: body_event_def)

text \<open>
  C9, as amended. When the walk of the log directories raises no error, the debug path only
  adds console output: next to the same run with debug mode off, \<^verbatim>\<open>run\<close> completes the
  same way, leaves the same \<^verbatim>\<open>stats\<close>, sends the same status records, and performs the
  same actions in the same order once the debug output is taken out.
\<close>

theorem debug_dump_only_adds_output:
  assumes ok: "fst (debug_output w (configured w)) = None"
  shows "fst (run w initial_state) = fst (run (w\<lparr>isDebug := False\<rparr>) initial_state)
     \<and> filter (\<lambda>ev. \<not> is_debug_output ev) (trace (snd (run w initial_state))) =
         trace (snd (run (w\<lparr>isDebug := False\<rparr>) initial_state))
     \<and> reports (trace (snd (run w initial_state))) =
         reports (trace (snd (run (w\<lparr>isDebug := False\<rparr>) initial_state)))
     \<and> stats (snd (run w initial_state)) = stats (snd (run (w\<lparr>isDebug := False\<rparr>) initial_state))"
proof -
  let ?t = "new_Date w"
  let ?w' = "w\<lparr>isDebug := False\<rparr>"
  let ?P = "\<lambda>ev. \<not> is_debug_output ev"
  obtain rc s3 where tc: "try_catch (run_try w ?t) (run_catch w ?t) after_init = (rc, s3)"
    by (cases "try_catch (run_try w ?t) (run_catch w ?t) after_init")
  obtain d dbg where dbg: "debug_output w (config s3) = (d, dbg)"
    by (cases "debug_output w (config s3)")
  have c0: "config after_init = None" by (simp add: after_init_def)
  have t0: "trace after_init = [InitializeEnvironment]" by (simp add: after_init_def)
  from try_catch_no_throw [OF tc] obtain c where rc: "rc = Inr c" by blast
  have facts: "(config s3 = None \<or> getConfig_result w = Inr (config s3)) \<and> filter ?P (trace s3) = trace s3"
    using try_catch_run [OF tc c0]
    by (auto simp: t0 after_init_def filter_body_events failure_events_def debug_output_def)
  then have "fst (debug_output w (config s3)) = None"
    using ok by (auto intro: debug_output_config)
  with dbg have d: "d = None" by simp
  from debug_output_events [of w "config s3"] dbg have fd: "filter ?P dbg = []" "reports dbg = []"
    by (simp_all add: filter_debug_output reports_debug)
  have on: "run w initial_state =
      (case c of Return \<Rightarrow> (Inr (), s3\<lparr>trace := trace s3 @ dbg\<rparr>)
       | Normal \<Rightarrow> (Inr (), s3\<lparr>trace := trace s3 @ dbg @
                       [SendStatusReport (finishStatusReport ?t (stats s3) None)]\<rparr>))"
    using tc dbg d rc by (cases c) (simp_all add: run_eq)
  have off: "run ?w' initial_state =
      (case c of Return \<Rightarrow> (Inr (), s3)
       | Normal \<Rightarrow> (Inr (), s3\<lparr>trace := trace s3 @
                       [SendStatusReport (finishStatusReport ?t (stats s3) None)]\<rparr>))"
    using tc rc by (cases c) (simp_all add: run_eq)
  show ?thesis
    using facts fd by (cases c) (simp_all add: on off reports_append)
qed

theorem debug_dump_only_adds_output_witness:
  "fst (run (example_world\<lparr>isDebug := True\<rparr>) initial_state) =
     fst (run (example_world\<lparr>isDebug := True, isDebug := False\<rparr>) initial_state)
   \<and> reports (trace (snd (run (example_world\<lparr>isDebug := True\<rparr>) initial_state))) =
       reports (trace (snd (run (example_world\<lparr>isDebug := True, isDebug := False\<rparr>) initial_state)))"
  using debug_dump_only_adds_output [OF example_debug_walk_ok] by blast

end
